theory Spec2Isabelle
  imports Main
begin

section \<open>Decoded documents and Python exceptions\<close>

text \<open>
  The repository holds two designs of the same recursive engine:
  \<^verbatim>\<open>configuration_based_strategy.py\<close> (prefix \<open>cfg_\<close> below) and
  \<^verbatim>\<open>one_strategy_per_layer_type.py\<close> (prefix \<open>ospl_\<close>). Both are written to read a
  file, decode it with \<^verbatim>\<open>json.loads\<close> and walk the decoded value; the first does not
  compile, so only the second ever runs. A decoded value is a \<open>json\<close>; a
  Python \<^verbatim>\<open>dict\<close> keeps its insertion order, so it is an association list. The engine
  never looks inside a scalar, so a float is kept as a mantissa and an exponent.
\<close>

datatype json =
    JNull
  | JBool bool
  | JInt int
  | JFloat int int
  | JStr string
  | JList "json list"
  | JDict "(string \<times> json) list"

text \<open>
  The exceptions that the code can meet. \<open>InvalidInputException\<close> is named by the
  docstring of \<^verbatim>\<open>validate\<close> and by the \<^verbatim>\<open>except\<close> clause of \<^verbatim>\<open>_process\<close>, but no
  statement of either module binds the name, and it is no builtin: evaluating the
  \<^verbatim>\<open>except\<close> clause raises NameError (see \<open>except_clause\<close>). The constructor stands for
  an exception of that name, should some code raise one. \<open>SystemExit\<close> is what the builtin
  \<^verbatim>\<open>exit\<close> raises; \<open>IndentationError\<close> is the syntax error that compiling a module with
  an empty function body raises.
\<close>

datatype error =
    TypeError
  | AttributeError
  | NameError
  | IndentationError
  | InvalidInputException
  | SystemExit int
  | RecursionError
  | OSError
  | JSONDecodeError

text \<open>\<^verbatim>\<open>type(value) is dict\<close>\<close>

fun is_dict :: "json \<Rightarrow> bool" where
  "is_dict (JDict kvs) = True"
| "is_dict v = False"

text \<open>
  \<^verbatim>\<open>self._data.items()\<close>: only a dict has the method; every other decoded value
  (list, str, int, float, bool, None) raises AttributeError.
\<close>

fun dict_items :: "json \<Rightarrow> error + (string \<times> json) list" where
  "dict_items (JDict kvs) = Inr kvs"
| "dict_items v = Inl AttributeError"

text \<open>
  The first loop of \<^verbatim>\<open>ConcreteProcessor._process\<close> (the same text in both designs):
  \<^verbatim>\<open>
  layer_nodes = []
  for field, value in self._data.items():
      if type(value) is dict:
          layer_nodes.append(value)
  \<close>
\<close>

definition collect_layer_nodes :: "(string \<times> json) list \<Rightarrow> json list" where
  "collect_layer_nodes kvs =
     fold (\<lambda>(field, v) layer_nodes. if is_dict v then layer_nodes @ [v] else layer_nodes) kvs []"

text \<open>
  The enumeration of section 4.4, step 5, as the specification words it: a direct field
  whose value is a Layer is a child, and so is each Layer held in a direct field whose
  value is an ordered sequence. It is here for comparison with \<open>collect_layer_nodes\<close>.
\<close>

fun spec_child_layers :: "(string \<times> json) list \<Rightarrow> json list" where
  "spec_child_layers [] = []"
| "spec_child_layers ((field, JDict kvs) # rest) = JDict kvs # spec_child_layers rest"
| "spec_child_layers ((field, JList vs) # rest) = filter is_dict vs @ spec_child_layers rest"
| "spec_child_layers ((field, v) # rest) = spec_child_layers rest"

section \<open>Classes, abstract methods and instantiation\<close>

text \<open>
  Every base class of the two modules derives from \<^verbatim>\<open>ABC\<close>, so Python refuses to
  instantiate a class that still has an abstract method: the call raises TypeError before
  \<^verbatim>\<open>__init__\<close> runs. A class is described by the \<^verbatim>\<open>def\<close> statements of its own body
  and by its ancestors in method resolution order (all hierarchies here are single
  inheritance). A \<^verbatim>\<open>def\<close> statement is recorded as it is written: its name, whether it is
  decorated with \<^verbatim>\<open>@abstractmethod\<close>, and whether a body follows it.
\<close>

type_synonym method_table = "(string \<times> bool \<times> bool) list"

text \<open>The first definition of a name along the method resolution order.\<close>

fun find_def :: "('c \<Rightarrow> method_table) \<Rightarrow> 'c list \<Rightarrow> string \<Rightarrow> bool option" where
  "find_def own [] m = None"
| "find_def own (c # cs) m =
     (case map_of (own c) m of Some (a, body) \<Rightarrow> Some a | None \<Rightarrow> find_def own cs m)"

text \<open>\<^verbatim>\<open>__abstractmethods__\<close>: the names whose definition found first is abstract.\<close>

definition abstractmethods :: "('c \<Rightarrow> method_table) \<Rightarrow> 'c list \<Rightarrow> string list" where
  "abstractmethods own order =
     remdups (concat (map (\<lambda>c. map fst (filter (\<lambda>(m, a, body). find_def own order m = Some True) (own c))) order))"

definition instantiate :: "('c \<Rightarrow> method_table) \<Rightarrow> ('c \<Rightarrow> 'c list) \<Rightarrow> 'c \<Rightarrow> error + 'c" where
  "instantiate own ancestors c =
     (if abstractmethods own (c # ancestors c) = [] then Inr c else Inl TypeError)"

text \<open>
  A module is compiled when it is imported, before any of its statements runs. A
  \<^verbatim>\<open>def\<close> statement that no body follows is a syntax error (IndentationError: expected an
  indented block), and then the import raises and nothing of the module exists: no class,
  no function, no \<^verbatim>\<open>Driver\<close>.
\<close>

definition compiles :: "('c \<Rightarrow> method_table) \<Rightarrow> 'c list \<Rightarrow> bool" where
  "compiles own classes = list_all (\<lambda>c. list_all (\<lambda>(m, a, body). body) (own c)) classes"

definition import_module :: "('c \<Rightarrow> method_table) \<Rightarrow> 'c list \<Rightarrow> error + unit" where
  "import_module own classes = (if compiles own classes then Inr () else Inl IndentationError)"

text \<open>
  The \<^verbatim>\<open>except\<close> clause of \<^verbatim>\<open>_process\<close>. When the \<^verbatim>\<open>try\<close> block has raised \<open>e\<close>,
  Python evaluates the expression \<^verbatim>\<open>InvalidInputException\<close> to compare: the name is
  looked up among the names bound in the module (no local and no builtin has this name).
  An unbound name raises NameError in place of \<open>e\<close>; a bound one would give the answer
  to "is \<open>e\<close> an instance".
\<close>

definition except_clause :: "string list \<Rightarrow> error \<Rightarrow> error + bool" where
  "except_clause globals e =
     (if ''InvalidInputException'' \<in> set globals then Inr (e = InvalidInputException)
      else Inl NameError)"

subsection \<open>The classes of configuration\_based\_strategy.py\<close>

text \<open>
  \<^verbatim>\<open>AbstractStorage.remove\<close> (line 133) is decorated and declared, and no body follows:
  the next statement is \<^verbatim>\<open>class StoreToS3\<close>. The table records it so, and the module
  does not compile (lemma \<open>cfg_import_fails\<close>). Every run-time operation of this module
  below starts from its import, so it ends there; the tables and the functions that are the
  text of a method describe what is written, not something that runs.
\<close>

datatype cfg_class =
    AbstractProcessor
  | AbstractStrategy
  | AbstractTransformer
  | RuleBasedTransformer
  | ReflectiveTransformer
  | AbstractNotifier
  | NullNotifier
  | EmailNotifier
  | MessageQueueNotifier
  | AbstractStorage
  | StoreToS3
  | StoreToFile
  | StoreToDB
  | ConcreteStrategy
  | ConcreteProcessor

fun cfg_ancestors :: "cfg_class \<Rightarrow> cfg_class list" where
  "cfg_ancestors RuleBasedTransformer = [AbstractTransformer]"
| "cfg_ancestors ReflectiveTransformer = [AbstractTransformer]"
| "cfg_ancestors NullNotifier = [AbstractNotifier]"
| "cfg_ancestors EmailNotifier = [AbstractNotifier]"
| "cfg_ancestors MessageQueueNotifier = [AbstractNotifier]"
| "cfg_ancestors StoreToS3 = [AbstractStorage]"
| "cfg_ancestors StoreToFile = [AbstractStorage]"
| "cfg_ancestors StoreToDB = [AbstractStorage]"
| "cfg_ancestors ConcreteStrategy = [AbstractStrategy]"
| "cfg_ancestors ConcreteProcessor = [AbstractProcessor]"
| "cfg_ancestors c = []"

fun cfg_own :: "cfg_class \<Rightarrow> method_table" where
  "cfg_own AbstractProcessor =
     [(''__init__'', False, True), (''_process'', True, True), (''_notify'', False, True),
      (''_undo_process'', True, True), (''process_data'', False, True)]"
| "cfg_own AbstractStrategy = [(''validate'', True, True), (''process'', False, True), (''store'', False, True)]"
| "cfg_own AbstractTransformer = [(''validate'', True, True), (''transform'', True, True)]"
| "cfg_own RuleBasedTransformer = [(''validate'', False, True), (''transform'', False, True)]"
| "cfg_own ReflectiveTransformer = [(''validate'', False, True), (''transform'', False, True)]"
| "cfg_own AbstractNotifier = [(''notify'', True, True)]"
| "cfg_own NullNotifier = [(''notify'', False, True)]"
| "cfg_own EmailNotifier = [(''notify'', False, True)]"
| "cfg_own MessageQueueNotifier = [(''notify'', False, True)]"
| "cfg_own AbstractStorage = [(''store'', True, True), (''remove'', True, False)]"
| "cfg_own StoreToS3 = []"
| "cfg_own StoreToFile = []"
| "cfg_own StoreToDB = []"
| "cfg_own ConcreteStrategy =
     [(''__init__'', False, True), (''validate'', False, True), (''process'', False, True), (''store'', False, True)]"
| "cfg_own ConcreteProcessor = [(''__init__'', False, True), (''_process'', False, True)]"

definition cfg_classes :: "cfg_class list" where
  "cfg_classes =
     [AbstractProcessor, AbstractStrategy, AbstractTransformer, RuleBasedTransformer,
      ReflectiveTransformer, AbstractNotifier, NullNotifier, EmailNotifier,
      MessageQueueNotifier, AbstractStorage, StoreToS3, StoreToFile, StoreToDB,
      ConcreteStrategy, ConcreteProcessor]"

text \<open>
  The factories and \<^verbatim>\<open>Driver\<close> derive from \<^verbatim>\<open>object\<close>; each of their functions has a
  body, so they do not matter to \<open>compiles\<close>. The names the module binds: its imports and
  its classes.
\<close>

definition cfg_import :: "error + unit" where
  "cfg_import = import_module cfg_own cfg_classes"

definition cfg_globals :: "string list" where
  "cfg_globals =
     [''io'', ''json'', ''ABC'', ''abstractmethod'', ''uuid4'', ''AbstractProcessor'',
      ''AbstractStrategy'', ''AbstractTransformer'', ''RuleBasedTransformer'',
      ''ReflectiveTransformer'', ''AbstractNotifier'', ''NullNotifier'', ''EmailNotifier'',
      ''MessageQueueNotifier'', ''AbstractStorage'', ''StoreToS3'', ''StoreToFile'',
      ''StoreToDB'', ''TransformerFactory'', ''NotifierFactory'', ''StorageFactory'',
      ''ConcreteStrategy'', ''ConcreteProcessor'', ''Driver'']"

definition cfg_instantiate :: "cfg_class \<Rightarrow> error + cfg_class" where
  "cfg_instantiate c =
     (case cfg_import of
        Inl e \<Rightarrow> Inl e
      | Inr u \<Rightarrow> instantiate cfg_own cfg_ancestors c)"

subsection \<open>The classes of one\_strategy\_per\_layer\_type.py\<close>

text \<open>
  \<^verbatim>\<open>AbstractProcessor\<close> and \<^verbatim>\<open>ConcreteProcessor\<close> exist in both modules; the ones of
  this module carry a prime.
\<close>

datatype ospl_class =
    AbstractProcessor'
  | AbstractAddressStrategy
  | BaseAddressStrategy
  | DefaultAddressStrategy
  | StreetAddressStrategy
  | AvenueAddressStrategy
  | AddressProcessor
  | ConcreteProcessor'

fun ospl_ancestors :: "ospl_class \<Rightarrow> ospl_class list" where
  "ospl_ancestors BaseAddressStrategy = [AbstractAddressStrategy]"
| "ospl_ancestors DefaultAddressStrategy = [BaseAddressStrategy, AbstractAddressStrategy]"
| "ospl_ancestors StreetAddressStrategy = [BaseAddressStrategy, AbstractAddressStrategy]"
| "ospl_ancestors AvenueAddressStrategy = [BaseAddressStrategy, AbstractAddressStrategy]"
| "ospl_ancestors AddressProcessor = [AbstractProcessor']"
| "ospl_ancestors ConcreteProcessor' = [AbstractProcessor']"
| "ospl_ancestors c = []"

fun ospl_own :: "ospl_class \<Rightarrow> method_table" where
  "ospl_own AbstractProcessor' =
     [(''__init__'', False, True), (''_process'', True, True), (''_notify'', False, True),
      (''_undo_process'', True, True), (''process_data'', False, True)]"
| "ospl_own AbstractAddressStrategy =
     [(''validate'', True, True), (''process'', False, True), (''store'', False, True)]"
| "ospl_own BaseAddressStrategy =
     [(''__init__'', False, True), (''validate'', False, True), (''process'', False, True), (''store'', False, True)]"
| "ospl_own DefaultAddressStrategy = [(''process'', False, True)]"
| "ospl_own StreetAddressStrategy =
     [(''__init__'', False, True), (''validate'', False, True), (''process'', False, True)]"
| "ospl_own AvenueAddressStrategy = [(''validate'', False, True), (''process'', False, True)]"
| "ospl_own AddressProcessor =
     [(''__init__'', False, True), (''_validate'', False, True), (''_process'', False, True)]"
| "ospl_own ConcreteProcessor' = [(''__init__'', False, True), (''_process'', False, True)]"

definition ospl_classes :: "ospl_class list" where
  "ospl_classes =
     [AbstractProcessor', AbstractAddressStrategy, BaseAddressStrategy,
      DefaultAddressStrategy, StreetAddressStrategy, AvenueAddressStrategy, AddressProcessor,
      ConcreteProcessor']"

definition ospl_import :: "error + unit" where
  "ospl_import = import_module ospl_own ospl_classes"

definition ospl_globals :: "string list" where
  "ospl_globals =
     [''io'', ''json'', ''ABC'', ''abstractmethod'', ''uuid4'', ''AbstractProcessor'',
      ''AbstractAddressStrategy'', ''BaseAddressStrategy'', ''DefaultAddressStrategy'',
      ''StreetAddressStrategy'', ''AvenueAddressStrategy'', ''AddressProcessor'',
      ''StrategyResolver'', ''ConcreteProcessor'', ''Driver'']"

definition ospl_instantiate :: "ospl_class \<Rightarrow> error + ospl_class" where
  "ospl_instantiate c =
     (case ospl_import of
        Inl e \<Rightarrow> Inl e
      | Inr u \<Rightarrow> instantiate ospl_own ospl_ancestors c)"

text \<open>
  Attribute lookup on a class object: a name is found when the class or one of its
  ancestors defines it in its body. Attributes that \<^verbatim>\<open>__init__\<close> assigns to
  \<^verbatim>\<open>self\<close> belong to instances, not to the class.
\<close>

definition ospl_class_getattr :: "ospl_class option \<Rightarrow> string \<Rightarrow> error + bool" where
  "ospl_class_getattr c name =
     (case c of
        None \<Rightarrow> Inl AttributeError
      | Some k \<Rightarrow>
          (case find_def ospl_own (k # ospl_ancestors k) name of
             None \<Rightarrow> Inl AttributeError
           | Some a \<Rightarrow> Inr True))"

section \<open>Classification and strategy resolution\<close>

text \<open>
  The factories of the first design and the resolver of the second read
  \<^verbatim>\<open>.field_name\<close> (and \<^verbatim>\<open>.data\<close>) of the layer object they are given.
\<close>

record layer =
  field_name :: string
  data :: "(string \<times> json) list"

definition get_transformer :: "layer \<Rightarrow> cfg_class" where
  "get_transformer d =
     (if field_name d \<in> set [''address'', ''transaction''] then RuleBasedTransformer
      else ReflectiveTransformer)"

definition get_notifier :: "layer \<Rightarrow> cfg_class" where
  "get_notifier d =
     (if field_name d \<in> set [''address''] then EmailNotifier
      else if field_name d \<in> set [''location'', ''transaction''] then MessageQueueNotifier
      else NullNotifier)"

definition get_storage :: "layer \<Rightarrow> cfg_class" where
  "get_storage d =
     (if field_name d \<in> set [''address''] then StoreToS3
      else if field_name d \<in> set [''location'', ''transaction''] then StoreToDB
      else StoreToFile)"

text \<open>
  \<^verbatim>\<open>StrategyResolver.get_strategy(field_name, data)\<close> returns a class object; when
  \<^verbatim>\<open>field_name\<close> is not \<^verbatim>\<open>'address'\<close> the function falls off its end and returns
  \<^verbatim>\<open>None\<close>. \<^verbatim>\<open>'street' in data\<close> tests the keys of the dict.
\<close>

definition get_strategy :: "string \<Rightarrow> (string \<times> json) list \<Rightarrow> ospl_class option" where
  "get_strategy fname d =
     (if fname = ''address'' then
        (if ''street'' \<in> set (map fst d) then Some StreetAddressStrategy
         else if ''avenue'' \<in> set (map fst d) then Some AvenueAddressStrategy
         else Some DefaultAddressStrategy)
      else None)"

text \<open>The policy flags that the \<^verbatim>\<open>__init__\<close> of a strategy stores on the instance.\<close>

record strategy_flags =
  is_independent_of_children :: bool
  stop_on_failure :: bool

record cfg_strategy = strategy_flags +
  transformer :: cfg_class
  storage_handler :: cfg_class
  notifier_obj :: cfg_class

text \<open>
  \<^verbatim>\<open>ConcreteStrategy(data, stop_on_failure, is_independent_of_children)\<close>: the class
  statement leaves no method abstract; its \<^verbatim>\<open>__init__\<close> instantiates the transformer,
  the storage handler and the notifier that the factories select, in this order. Each
  instantiation goes through \<open>cfg_instantiate\<close>, that is, through the import of the module.
\<close>

definition new_ConcreteStrategy :: "layer \<Rightarrow> bool \<Rightarrow> bool \<Rightarrow> error + cfg_strategy" where
  "new_ConcreteStrategy d sof indep =
     (case cfg_instantiate ConcreteStrategy of
        Inl e \<Rightarrow> Inl e
      | Inr k \<Rightarrow>
     (case cfg_instantiate (get_transformer d) of
        Inl e \<Rightarrow> Inl e
      | Inr t \<Rightarrow>
     (case cfg_instantiate (get_storage d) of
        Inl e \<Rightarrow> Inl e
      | Inr st \<Rightarrow>
     (case cfg_instantiate (get_notifier d) of
        Inl e \<Rightarrow> Inl e
      | Inr n \<Rightarrow>
          Inr \<lparr>is_independent_of_children = indep, stop_on_failure = sof,
               transformer = t, storage_handler = st, notifier_obj = n\<rparr>))))"

text \<open>
  \<^verbatim>\<open>BaseAddressStrategy.__init__(stop_on_failure=True, is_independent_of_children=False)\<close>
  and the override of \<^verbatim>\<open>StreetAddressStrategy\<close>, which takes no argument.
\<close>

definition BaseAddressStrategy_init :: "bool \<Rightarrow> bool \<Rightarrow> strategy_flags" where
  "BaseAddressStrategy_init sof indep =
     \<lparr>is_independent_of_children = indep, stop_on_failure = sof\<rparr>"

definition StreetAddressStrategy_init :: strategy_flags where
  "StreetAddressStrategy_init = BaseAddressStrategy_init False True"

section \<open>The recursive engine\<close>

text \<open>
  The engine performs no input or output of its own; to state what it calls and in which
  order, the model keeps a log of calls. \<open>Construct t v\<close> records the call
  \<^verbatim>\<open>ConcreteProcessor(t, v)\<close>, \<open>Process t v\<close> the entry into \<^verbatim>\<open>_process\<close> of a
  processor holding trace id \<open>t\<close> and data \<open>v\<close>; the other events record calls of the
  strategy operations. \<open>uuid_draws\<close> counts the calls of \<^verbatim>\<open>uuid4\<close>.
\<close>

datatype event =
    Construct nat json
  | Process nat json
  | Validate
  | Transform
  | Store
  | Notify
  | Undo

record world =
  log :: "event list"
  uuid_draws :: nat

definition emit :: "event \<Rightarrow> world \<Rightarrow> world" where
  "emit e s = s\<lparr>log := log s @ [e]\<rparr>"

text \<open>
  \<^verbatim>\<open>uuid4()\<close>: the source of randomness is a parameter \<open>gen\<close>, the value of the
  \<open>k\<close>-th draw.
\<close>

definition uuid4 :: "(nat \<Rightarrow> nat) \<Rightarrow> world \<Rightarrow> nat \<times> world" where
  "uuid4 gen s = (gen (uuid_draws s), s\<lparr>uuid_draws := Suc (uuid_draws s)\<rparr>)"

subsection \<open>Strategy operations\<close>

text \<open>
  Every body is \<^verbatim>\<open>pass\<close> (or a call of one that is): the operation returns
  \<^verbatim>\<open>None\<close>, raises nothing and only leaves its call in the log.
  \<^verbatim>\<open>ConcreteStrategy.validate\<close> calls the transformer's \<^verbatim>\<open>validate\<close>;
  \<^verbatim>\<open>ConcreteStrategy.process\<close> calls \<^verbatim>\<open>transform\<close> and then the notifier;
  \<^verbatim>\<open>ConcreteStrategy.store\<close> calls the storage handler.
\<close>

definition cfg_validate :: "cfg_strategy \<Rightarrow> world \<Rightarrow> (error + unit) \<times> world" where
  "cfg_validate st s = (Inr (), emit Validate s)"

definition cfg_strategy_process :: "cfg_strategy \<Rightarrow> world \<Rightarrow> (error + unit) \<times> world" where
  "cfg_strategy_process st s = (Inr (), emit Notify (emit Transform s))"

definition cfg_store :: "cfg_strategy \<Rightarrow> world \<Rightarrow> (error + unit) \<times> world" where
  "cfg_store st s = (Inr (), emit Store s)"

text \<open>
  \<^verbatim>\<open>BaseAddressStrategy.validate\<close>, \<^verbatim>\<open>process\<close> and \<^verbatim>\<open>store\<close>; the overrides of the
  street and avenue strategies call \<^verbatim>\<open>super()\<close> and add nothing.
\<close>

definition ospl_validate :: "ospl_class \<Rightarrow> world \<Rightarrow> (error + unit) \<times> world" where
  "ospl_validate k s = (Inr (), emit Validate s)"

definition ospl_strategy_process :: "ospl_class \<Rightarrow> world \<Rightarrow> (error + unit) \<times> world" where
  "ospl_strategy_process k s = (Inr (), emit Transform s)"

definition ospl_store :: "ospl_class \<Rightarrow> world \<Rightarrow> (error + unit) \<times> world" where
  "ospl_store k s = (Inr (), emit Store s)"

subsection \<open>Processor objects\<close>

text \<open>
  \<^verbatim>\<open>AbstractProcessor.__init__\<close> stores \<^verbatim>\<open>_trace_id\<close> and \<^verbatim>\<open>_data\<close>; the
  \<^verbatim>\<open>__init__\<close> of \<^verbatim>\<open>ConcreteProcessor\<close> adds \<^verbatim>\<open>strategy\<close> (first design) or
  \<^verbatim>\<open>strategy_obj\<close> (second design).
\<close>

record abstract_processor =
  trace_id :: nat
  layer_data :: json

record cfg_processor = abstract_processor +
  strategy :: cfg_strategy

record ospl_processor = abstract_processor +
  strategy_obj :: "ospl_class option"

text \<open>
  A decoded JSON value is a plain \<^verbatim>\<open>dict\<close>, \<^verbatim>\<open>list\<close>, \<^verbatim>\<open>str\<close>, number,
  \<^verbatim>\<open>bool\<close> or \<^verbatim>\<open>None\<close>; none of them has an attribute \<^verbatim>\<open>field_name\<close> or
  \<^verbatim>\<open>data\<close>, so reading a layer object out of one raises AttributeError.
\<close>

definition layer_of_json :: "json \<Rightarrow> error + layer" where
  "layer_of_json v = Inl AttributeError"

text \<open>
  \<^verbatim>\<open>ConcreteProcessor(trace_id, layer_data)\<close> of the first design: the import of the
  module and the abstract-method check of object creation (both in \<open>cfg_instantiate\<close>),
  then \<^verbatim>\<open>__init__\<close>, which builds \<^verbatim>\<open>ConcreteStrategy(layer_data)\<close> with the default
  flags.
\<close>

definition cfg_ConcreteProcessor :: "nat \<Rightarrow> json \<Rightarrow> error + cfg_processor" where
  "cfg_ConcreteProcessor tid v =
     (case cfg_instantiate ConcreteProcessor of
        Inl e \<Rightarrow> Inl e
      | Inr k \<Rightarrow>
     (case layer_of_json v of
        Inl e \<Rightarrow> Inl e
      | Inr d \<Rightarrow>
     (case new_ConcreteStrategy d True False of
        Inl e \<Rightarrow> Inl e
      | Inr st \<Rightarrow> Inr \<lparr>trace_id = tid, layer_data = v, strategy = st\<rparr>)))"

text \<open>
  \<^verbatim>\<open>ConcreteProcessor(trace_id, layer_data)\<close> of the second design: the same steps, then
  \<^verbatim>\<open>StrategyResolver.get_strategy(layer_data.field_name, layer_data.data)\<close>.
\<close>

definition ospl_ConcreteProcessor :: "nat \<Rightarrow> json \<Rightarrow> error + ospl_processor" where
  "ospl_ConcreteProcessor tid v =
     (case ospl_instantiate ConcreteProcessor' of
        Inl e \<Rightarrow> Inl e
      | Inr k \<Rightarrow>
     (case layer_of_json v of
        Inl e \<Rightarrow> Inl e
      | Inr d \<Rightarrow>
          Inr \<lparr>trace_id = tid, layer_data = v,
               strategy_obj = get_strategy (field_name d) (data d)\<rparr>))"

text \<open>
  Attribute reads of the \<^verbatim>\<open>except\<close> block. In the first design a processor has the
  instance attributes \<^verbatim>\<open>_trace_id\<close>, \<^verbatim>\<open>_data\<close> and \<^verbatim>\<open>strategy\<close> and the methods of
  its two classes: \<^verbatim>\<open>processor_obj.strategy_obj\<close> finds nothing, and neither does it on
  \<^verbatim>\<open>None\<close>, the value of \<^verbatim>\<open>processor_obj\<close> before the first successful construction.
  In both designs the method is called \<^verbatim>\<open>_notify\<close>, so \<^verbatim>\<open>processor_obj.notify()\<close>
  finds nothing either (lemmas \<open>cfg_no_strategy_obj\<close>, \<open>cfg_no_notify\<close> and
  \<open>ospl_no_notify\<close>).
\<close>

definition cfg_instance_attrs :: "string list" where
  "cfg_instance_attrs = [''_trace_id'', ''_data'', ''strategy'']"

definition ospl_instance_attrs :: "string list" where
  "ospl_instance_attrs = [''_trace_id'', ''_data'', ''strategy_obj'']"

definition cfg_hasattr :: "string \<Rightarrow> bool" where
  "cfg_hasattr name =
     (name \<in> set cfg_instance_attrs \<or>
      find_def cfg_own (ConcreteProcessor # cfg_ancestors ConcreteProcessor) name \<noteq> None)"

definition ospl_hasattr :: "string \<Rightarrow> bool" where
  "ospl_hasattr name =
     (name \<in> set ospl_instance_attrs \<or>
      find_def ospl_own (ConcreteProcessor' # ospl_ancestors ConcreteProcessor') name \<noteq> None)"

definition cfg_get_strategy_obj :: "cfg_processor option \<Rightarrow> error + cfg_strategy" where
  "cfg_get_strategy_obj po = Inl AttributeError"

definition cfg_notify :: "cfg_processor option \<Rightarrow> world \<Rightarrow> (error + unit) \<times> world" where
  "cfg_notify po s = (Inl AttributeError, s)"

definition ospl_notify :: "ospl_processor option \<Rightarrow> world \<Rightarrow> (error + unit) \<times> world" where
  "ospl_notify po s = (Inl AttributeError, s)"

subsection \<open>The loop over the child layers, first design\<close>

text \<open>
  \<^verbatim>\<open>
  processor_obj = None
  for layer_node in layer_nodes:
      try:
          processor_obj = ConcreteProcessor(self._trace_id, layer_node)
          if processor_obj.strategy.is_independent_of_children:
              pass
          processor_obj.process_data()
      except InvalidInputException:
          if processor_obj.strategy_obj.stop_on_failure:
              processor_obj.notify()
              exit(-1)
  \<close>
  \<^verbatim>\<open>ConcreteProcessor\<close> is a module-level name that Python resolves when the loop
  runs, so the loop is modelled relative to its binding \<open>new\<close>; \<open>run\<close> is the
  \<^verbatim>\<open>process_data\<close> of the object built. The variable \<^verbatim>\<open>processor_obj\<close> survives from
  one iteration to the next and is assigned only when the construction returns. When the
  \<^verbatim>\<open>try\<close> block raises, the \<^verbatim>\<open>except\<close> clause is evaluated first (\<open>except_clause\<close>);
  its block runs only if that evaluation returns and matches.
\<close>

definition cfg_try_body ::
  "(nat \<Rightarrow> json \<Rightarrow> error + cfg_processor) \<Rightarrow>
   (cfg_processor \<Rightarrow> world \<Rightarrow> (error + unit) \<times> world) \<Rightarrow>
   nat \<Rightarrow> cfg_processor option \<Rightarrow> json \<Rightarrow> world \<Rightarrow>
   cfg_processor option \<times> (error + unit) \<times> world" where
  "cfg_try_body new run tid po layer_node s =
     (case new tid layer_node of
        Inl e \<Rightarrow> (po, Inl e, emit (Construct tid layer_node) s)
      | Inr p \<Rightarrow>
          (let s1 = emit (Construct tid layer_node) s;
               async = is_independent_of_children (strategy p);
               (r, s2) = run p s1
           in (Some p, r, s2)))"

definition cfg_handler :: "cfg_processor option \<Rightarrow> world \<Rightarrow> (error + unit) \<times> world" where
  "cfg_handler po s =
     (case cfg_get_strategy_obj po of
        Inl e \<Rightarrow> (Inl e, s)
      | Inr st \<Rightarrow>
          if stop_on_failure st then
            (case cfg_notify po s of
               (Inl e, s1) \<Rightarrow> (Inl e, s1)
             | (Inr u, s1) \<Rightarrow> (Inl (SystemExit (- 1)), s1))
          else (Inr (), s))"

fun cfg_loop ::
  "(nat \<Rightarrow> json \<Rightarrow> error + cfg_processor) \<Rightarrow>
   (cfg_processor \<Rightarrow> world \<Rightarrow> (error + unit) \<times> world) \<Rightarrow>
   nat \<Rightarrow> cfg_processor option \<Rightarrow> json list \<Rightarrow> world \<Rightarrow> (error + unit) \<times> world" where
  "cfg_loop new run tid po [] s = (Inr (), s)"
| "cfg_loop new run tid po (layer_node # rest) s =
     (case cfg_try_body new run tid po layer_node s of
        (po1, Inr u, s1) \<Rightarrow> cfg_loop new run tid po1 rest s1
      | (po1, Inl e, s1) \<Rightarrow>
          (case except_clause cfg_globals e of
             Inl e1 \<Rightarrow> (Inl e1, s1)
           | Inr matches \<Rightarrow>
               if matches then
                 (case cfg_handler po1 s1 of
                    (Inr u, s2) \<Rightarrow> cfg_loop new run tid po1 rest s2
                  | (Inl e2, s2) \<Rightarrow> (Inl e2, s2))
               else (Inl e, s1)))"

text \<open>
  \<^verbatim>\<open>_process\<close>, and \<^verbatim>\<open>process_data\<close>, which only calls it. \<open>depth\<close> is the number of
  nested calls that the interpreter still allows; Python raises RecursionError beyond it.
\<close>

fun cfg_process ::
  "(nat \<Rightarrow> json \<Rightarrow> error + cfg_processor) \<Rightarrow> nat \<Rightarrow> cfg_processor \<Rightarrow> world \<Rightarrow>
   (error + unit) \<times> world" where
  "cfg_process new 0 p s = (Inl RecursionError, s)"
| "cfg_process new (Suc depth) p s =
     (let s1 = emit (Process (trace_id p) (layer_data p)) s in
      case dict_items (layer_data p) of
        Inl e \<Rightarrow> (Inl e, s1)
      | Inr kvs \<Rightarrow>
          cfg_loop new (\<lambda>c t. cfg_process new depth c t) (trace_id p) None
            (collect_layer_nodes kvs) s1)"

definition cfg_process_data ::
  "(nat \<Rightarrow> json \<Rightarrow> error + cfg_processor) \<Rightarrow> nat \<Rightarrow> cfg_processor \<Rightarrow> world \<Rightarrow>
   (error + unit) \<times> world" where
  "cfg_process_data new depth p s = cfg_process new depth p s"

text \<open>
  \<^verbatim>\<open>Driver.main(file_path)\<close>, reached through the import of its module. Reading the file
  and decoding it are the work of \<^verbatim>\<open>open\<close>/\<^verbatim>\<open>read\<close> and of \<^verbatim>\<open>json.loads\<close>; both
  can raise, and both are parameters.
\<close>

definition cfg_main ::
  "(nat \<Rightarrow> json \<Rightarrow> error + cfg_processor) \<Rightarrow> (string \<Rightarrow> error + string) \<Rightarrow>
   (string \<Rightarrow> error + json) \<Rightarrow> (nat \<Rightarrow> nat) \<Rightarrow> nat \<Rightarrow> string \<Rightarrow> world \<Rightarrow>
   (error + unit) \<times> world" where
  "cfg_main new get_content_from_file json_loads gen depth file_path s =
     (case cfg_import of
        Inl e \<Rightarrow> (Inl e, s)
      | Inr u \<Rightarrow>
     (case get_content_from_file file_path of
        Inl e \<Rightarrow> (Inl e, s)
      | Inr content \<Rightarrow>
     (case json_loads content of
        Inl e \<Rightarrow> (Inl e, s)
      | Inr doc \<Rightarrow>
          (let (tid, s1) = uuid4 gen s;
               s2 = emit (Construct tid doc) s1
           in case new tid doc of
                Inl e \<Rightarrow> (Inl e, s2)
              | Inr processor_obj \<Rightarrow> cfg_process_data new depth processor_obj s2))))"

subsection \<open>The loop over the child layers, second design\<close>

text \<open>
  The same loop, reading \<^verbatim>\<open>processor_obj.strategy_obj\<close> in both places.
  \<^verbatim>\<open>strategy_obj\<close> holds what \<^verbatim>\<open>get_strategy\<close> returned: a class object or
  \<^verbatim>\<open>None\<close>, never an instance, so \<^verbatim>\<open>.is_independent_of_children\<close> and
  \<^verbatim>\<open>.stop_on_failure\<close> are looked up on the class. A class attribute found would be a
  function object, which is true in a condition.
\<close>

definition ospl_try_body ::
  "(nat \<Rightarrow> json \<Rightarrow> error + ospl_processor) \<Rightarrow>
   (ospl_processor \<Rightarrow> world \<Rightarrow> (error + unit) \<times> world) \<Rightarrow>
   nat \<Rightarrow> ospl_processor option \<Rightarrow> json \<Rightarrow> world \<Rightarrow>
   ospl_processor option \<times> (error + unit) \<times> world" where
  "ospl_try_body new run tid po layer_node s =
     (case new tid layer_node of
        Inl e \<Rightarrow> (po, Inl e, emit (Construct tid layer_node) s)
      | Inr p \<Rightarrow>
          (let s1 = emit (Construct tid layer_node) s in
           case ospl_class_getattr (strategy_obj p) ''is_independent_of_children'' of
             Inl e \<Rightarrow> (Some p, Inl e, s1)
           | Inr async \<Rightarrow> (let (r, s2) = run p s1 in (Some p, r, s2))))"

definition ospl_handler :: "ospl_processor option \<Rightarrow> world \<Rightarrow> (error + unit) \<times> world" where
  "ospl_handler po s =
     (case po of
        None \<Rightarrow> (Inl AttributeError, s)
      | Some p \<Rightarrow>
          (case ospl_class_getattr (strategy_obj p) ''stop_on_failure'' of
             Inl e \<Rightarrow> (Inl e, s)
           | Inr stop \<Rightarrow>
               if stop then
                 (case ospl_notify po s of
                    (Inl e, s1) \<Rightarrow> (Inl e, s1)
                  | (Inr u, s1) \<Rightarrow> (Inl (SystemExit (- 1)), s1))
               else (Inr (), s)))"

fun ospl_loop ::
  "(nat \<Rightarrow> json \<Rightarrow> error + ospl_processor) \<Rightarrow>
   (ospl_processor \<Rightarrow> world \<Rightarrow> (error + unit) \<times> world) \<Rightarrow>
   nat \<Rightarrow> ospl_processor option \<Rightarrow> json list \<Rightarrow> world \<Rightarrow> (error + unit) \<times> world" where
  "ospl_loop new run tid po [] s = (Inr (), s)"
| "ospl_loop new run tid po (layer_node # rest) s =
     (case ospl_try_body new run tid po layer_node s of
        (po1, Inr u, s1) \<Rightarrow> ospl_loop new run tid po1 rest s1
      | (po1, Inl e, s1) \<Rightarrow>
          (case except_clause ospl_globals e of
             Inl e1 \<Rightarrow> (Inl e1, s1)
           | Inr matches \<Rightarrow>
               if matches then
                 (case ospl_handler po1 s1 of
                    (Inr u, s2) \<Rightarrow> ospl_loop new run tid po1 rest s2
                  | (Inl e2, s2) \<Rightarrow> (Inl e2, s2))
               else (Inl e, s1)))"

fun ospl_process ::
  "(nat \<Rightarrow> json \<Rightarrow> error + ospl_processor) \<Rightarrow> nat \<Rightarrow> ospl_processor \<Rightarrow> world \<Rightarrow>
   (error + unit) \<times> world" where
  "ospl_process new 0 p s = (Inl RecursionError, s)"
| "ospl_process new (Suc depth) p s =
     (let s1 = emit (Process (trace_id p) (layer_data p)) s in
      case dict_items (layer_data p) of
        Inl e \<Rightarrow> (Inl e, s1)
      | Inr kvs \<Rightarrow>
          ospl_loop new (\<lambda>c t. ospl_process new depth c t) (trace_id p) None
            (collect_layer_nodes kvs) s1)"

definition ospl_process_data ::
  "(nat \<Rightarrow> json \<Rightarrow> error + ospl_processor) \<Rightarrow> nat \<Rightarrow> ospl_processor \<Rightarrow> world \<Rightarrow>
   (error + unit) \<times> world" where
  "ospl_process_data new depth p s = ospl_process new depth p s"

definition ospl_main ::
  "(nat \<Rightarrow> json \<Rightarrow> error + ospl_processor) \<Rightarrow> (string \<Rightarrow> error + string) \<Rightarrow>
   (string \<Rightarrow> error + json) \<Rightarrow> (nat \<Rightarrow> nat) \<Rightarrow> nat \<Rightarrow> string \<Rightarrow> world \<Rightarrow>
   (error + unit) \<times> world" where
  "ospl_main new get_content_from_file json_loads gen depth file_path s =
     (case ospl_import of
        Inl e \<Rightarrow> (Inl e, s)
      | Inr u \<Rightarrow>
     (case get_content_from_file file_path of
        Inl e \<Rightarrow> (Inl e, s)
      | Inr content \<Rightarrow>
     (case json_loads content of
        Inl e \<Rightarrow> (Inl e, s)
      | Inr doc \<Rightarrow>
          (let (tid, s1) = uuid4 gen s;
               s2 = emit (Construct tid doc) s1
           in case new tid doc of
                Inl e \<Rightarrow> (Inl e, s2)
              | Inr processor_obj \<Rightarrow> ospl_process_data new depth processor_obj s2))))"

subsection \<open>Reading the log\<close>

text \<open>
  The trace id an event carries; \<open>grows P s s'\<close> says that \<open>s'\<close> continues \<open>s\<close>: no
  further call of \<^verbatim>\<open>uuid4\<close>, the log of \<open>s\<close> kept, and every event added satisfies \<open>P\<close>.
\<close>

fun event_trace :: "event \<Rightarrow> nat option" where
  "event_trace (Construct t v) = Some t"
| "event_trace (Process t v) = Some t"
| "event_trace e = None"

definition is_walk_event :: "event \<Rightarrow> bool" where
  "is_walk_event e = (event_trace e \<noteq> None)"

definition grows :: "(event \<Rightarrow> bool) \<Rightarrow> world \<Rightarrow> world \<Rightarrow> bool" where
  "grows P s s' =
     (uuid_draws s' = uuid_draws s \<and> take (length (log s)) (log s') = log s \<and>
      list_all P (drop (length (log s)) (log s')))"


section \<open>Properties\<close>

lemma collect_layer_nodes_fold:
  "fold (\<lambda>(field, v) layer_nodes. if is_dict v then layer_nodes @ [v] else layer_nodes) kvs acc
     = acc @ filter is_dict (map snd kvs)"
  by (induction kvs arbitrary: acc) (auto split: prod.splits)

lemma collect_layer_nodes_filter: "collect_layer_nodes kvs = filter is_dict (map snd kvs)"
  by (simp add: collect_layer_nodes_def collect_layer_nodes_fold)

subsection \<open>Facts about the modules and their class tables\<close>

lemma cfg_import_fails: "cfg_import = Inl IndentationError"
  by (simp add: cfg_import_def import_module_def compiles_def cfg_classes_def)

lemma ospl_import_succeeds: "ospl_import = Inr ()"
  by (simp add: ospl_import_def import_module_def compiles_def ospl_classes_def)

lemma cfg_except_clause: "except_clause cfg_globals e = Inl NameError"
  by (simp add: except_clause_def cfg_globals_def)

lemma ospl_except_clause: "except_clause ospl_globals e = Inl NameError"
  by (simp add: except_clause_def ospl_globals_def)

text \<open>
  The \<^verbatim>\<open>except\<close> block is never entered. Were it entered, it would raise
  AttributeError itself: \<^verbatim>\<open>strategy_obj\<close> is no attribute of a processor of the first
  design, and a class object of the second design has no attribute
  \<^verbatim>\<open>stop_on_failure\<close>.
\<close>

lemma cfg_handler_raises: "cfg_handler po s = (Inl AttributeError, s)"
  by (simp add: cfg_handler_def cfg_get_strategy_obj_def)

lemma cfg_abstract_ConcreteProcessor:
  "abstractmethods cfg_own (ConcreteProcessor # cfg_ancestors ConcreteProcessor) = [''_undo_process'']"
  by (simp add: abstractmethods_def)

lemma ospl_abstract_ConcreteProcessor:
  "abstractmethods ospl_own (ConcreteProcessor' # ospl_ancestors ConcreteProcessor') = [''_undo_process'']"
  by (simp add: abstractmethods_def)

lemma cfg_instantiate_fails: "cfg_instantiate c = Inl IndentationError"
  by (simp add: cfg_instantiate_def cfg_import_fails)

lemma cfg_ConcreteProcessor_fails: "cfg_ConcreteProcessor tid v = Inl IndentationError"
  by (simp add: cfg_ConcreteProcessor_def cfg_instantiate_fails)

lemma ospl_ConcreteProcessor_fails: "ospl_ConcreteProcessor tid v = Inl TypeError"
  using ospl_abstract_ConcreteProcessor
  by (simp add: ospl_ConcreteProcessor_def ospl_instantiate_def ospl_import_succeeds
      instantiate_def)

lemma cfg_no_strategy_obj: "\<not> cfg_hasattr ''strategy_obj''"
  by (simp add: cfg_hasattr_def cfg_instance_attrs_def)

lemma cfg_no_notify: "\<not> cfg_hasattr ''notify''"
  by (simp add: cfg_hasattr_def cfg_instance_attrs_def)

lemma ospl_no_notify: "\<not> ospl_hasattr ''notify''"
  by (simp add: ospl_hasattr_def ospl_instance_attrs_def)

lemma ospl_class_no_flags:
  "ospl_class_getattr k ''stop_on_failure'' = Inl AttributeError"
  "ospl_class_getattr k ''is_independent_of_children'' = Inl AttributeError"
  by (cases k; (simp add: ospl_class_getattr_def)?; rename_tac c; case_tac c; simp add: ospl_class_getattr_def)+

lemma ospl_handler_raises: "ospl_handler po s = (Inl AttributeError, s)"
  by (cases po) (simp_all add: ospl_handler_def ospl_class_no_flags)

lemma factories_total:
  "get_transformer d \<in> {RuleBasedTransformer, ReflectiveTransformer}"
  "get_notifier d \<in> {EmailNotifier, MessageQueueNotifier, NullNotifier}"
  "get_storage d \<in> {StoreToS3, StoreToDB, StoreToFile}"
  by (simp_all add: get_transformer_def get_notifier_def get_storage_def)

subsection \<open>Strategies\<close>

text \<open>
  As written, the three storage classes have an empty body and inherit the abstract
  \<^verbatim>\<open>store\<close> and \<^verbatim>\<open>remove\<close>. Building a \<^verbatim>\<open>ConcreteStrategy\<close> never gets that far: the
  module it lives in does not compile.
\<close>

lemma cfg_storage_abstract:
  "abstractmethods cfg_own (get_storage d # cfg_ancestors (get_storage d)) = [''store'', ''remove'']"
  by (simp add: get_storage_def abstractmethods_def)

lemma new_ConcreteStrategy_fails: "new_ConcreteStrategy d sof indep = Inl IndentationError"
  by (simp add: new_ConcreteStrategy_def cfg_instantiate_fails)

lemma strategy_operations_never_raise:
  "fst (cfg_validate st s) = Inr ()" "fst (cfg_strategy_process st s) = Inr ()"
  "fst (cfg_store st s) = Inr ()" "fst (ospl_validate k s) = Inr ()"
  "fst (ospl_strategy_process k s) = Inr ()" "fst (ospl_store k s) = Inr ()"
  by (simp_all add: cfg_validate_def cfg_strategy_process_def cfg_store_def ospl_validate_def
      ospl_strategy_process_def ospl_store_def)

lemma StreetAddressStrategy_flags:
  "\<not> stop_on_failure StreetAddressStrategy_init"
  "is_independent_of_children StreetAddressStrategy_init"
  "stop_on_failure (BaseAddressStrategy_init True False)"
  "\<not> is_independent_of_children (BaseAddressStrategy_init True False)"
  by (simp_all add: StreetAddressStrategy_init_def BaseAddressStrategy_init_def)

subsection \<open>The except clause ends the loop\<close>

lemma cfg_loop_raise:
  "cfg_try_body new run tid po v s = (po1, Inl e, s1) \<Longrightarrow>
   cfg_loop new run tid po (v # rest) s = (Inl NameError, s1)"
  by (simp add: cfg_except_clause)

lemma ospl_loop_raise:
  "ospl_try_body new run tid po v s = (po1, Inl e, s1) \<Longrightarrow>
   ospl_loop new run tid po (v # rest) s = (Inl NameError, s1)"
  by (simp add: ospl_except_clause)

lemma cfg_loop_return:
  "cfg_try_body new run tid po v s = (po1, Inr u, s1) \<Longrightarrow>
   cfg_loop new run tid po (v # rest) s = cfg_loop new run tid po1 rest s1"
  by simp

lemma ospl_loop_return:
  "ospl_try_body new run tid po v s = (po1, Inr u, s1) \<Longrightarrow>
   ospl_loop new run tid po (v # rest) s = ospl_loop new run tid po1 rest s1"
  by simp

subsection \<open>How the log grows\<close>

lemma grows_iff:
  "grows P s s' \<longleftrightarrow> uuid_draws s' = uuid_draws s \<and> (\<exists>es. log s' = log s @ es \<and> list_all P es)"
proof
  assume g: "grows P s s'"
  then have "log s' = log s @ drop (length (log s)) (log s')"
    by (metis append_take_drop_id grows_def)
  with g show "uuid_draws s' = uuid_draws s \<and> (\<exists>es. log s' = log s @ es \<and> list_all P es)"
    unfolding grows_def by blast
next
  assume "uuid_draws s' = uuid_draws s \<and> (\<exists>es. log s' = log s @ es \<and> list_all P es)"
  then show "grows P s s'" by (auto simp: grows_def)
qed

lemma grows_refl: "grows P s s"
  by (simp add: grows_def)

lemma grows_trans: "grows P s s1 \<Longrightarrow> grows P s1 s2 \<Longrightarrow> grows P s s2"
  by (auto simp: grows_iff)

lemma grows_emit: "P e \<Longrightarrow> grows P s (emit e s)"
  by (simp add: grows_iff emit_def)

lemma grows_mono: "(\<And>e. P e \<Longrightarrow> Q e) \<Longrightarrow> grows P s s' \<Longrightarrow> grows Q s s'"
  by (auto simp: grows_iff list_all_iff)

lemma cfg_try_body_grows:
  assumes "P (Construct tid v)"
      and "\<And>p s. new tid v = Inr p \<Longrightarrow> grows P s (snd (run p s))"
  shows "grows P s (snd (snd (cfg_try_body new run tid po v s)))"
proof (cases "new tid v")
  case (Inl e)
  then show ?thesis using assms(1) by (simp add: cfg_try_body_def grows_emit)
next
  case (Inr p)
  have "grows P s (emit (Construct tid v) s)" using assms(1) by (rule grows_emit)
  moreover have "grows P (emit (Construct tid v) s) (snd (run p (emit (Construct tid v) s)))"
    using assms(2) Inr by blast
  ultimately show ?thesis using Inr
    by (auto simp: cfg_try_body_def Let_def split: prod.splits intro: grows_trans)
qed

lemma cfg_loop_grows:
  assumes "\<And>v. P (Construct tid v)"
      and "\<And>v p s. new tid v = Inr p \<Longrightarrow> grows P s (snd (run p s))"
  shows "grows P s (snd (cfg_loop new run tid po nodes s))"
proof (induction nodes arbitrary: po s)
  case Nil
  show ?case by (simp add: grows_refl)
next
  case (Cons v rest)
  obtain po1 r s1 where tb: "cfg_try_body new run tid po v s = (po1, r, s1)"
    by (metis prod_cases3)
  have g1: "grows P s s1"
    using cfg_try_body_grows [of P tid v new run s po] assms tb by simp
  show ?case
  proof (cases r)
    case (Inr u)
    then show ?thesis
      using tb g1 Cons.IH cfg_loop_return [of new run tid po v s po1 u s1 rest]
      by (auto intro: grows_trans)
  next
    case (Inl e)
    then show ?thesis
      using tb g1 cfg_loop_raise [of new run tid po v s po1 e s1 rest] by simp
  qed
qed

lemma cfg_process_grows:
  assumes "\<And>t v. Q t \<Longrightarrow> P (Construct t v)"
      and "\<And>t v. Q t \<Longrightarrow> P (Process t v)"
      and "\<And>t v p. Q t \<Longrightarrow> new t v = Inr p \<Longrightarrow> Q (trace_id p)"
      and "Q (trace_id p)"
  shows "grows P s (snd (cfg_process new depth p s))"
  using assms(4)
proof (induction depth arbitrary: p s)
  case 0
  show ?case by (simp add: grows_refl)
next
  case (Suc depth)
  let ?s1 = "emit (Process (trace_id p) (layer_data p)) s"
  have g0: "grows P s ?s1" using assms(2) Suc.prems by (simp add: grows_emit)
  show ?case
  proof (cases "dict_items (layer_data p)")
    case (Inl e)
    then show ?thesis using g0 by (simp add: Let_def)
  next
    case (Inr kvs)
    have "grows P ?s1 (snd (cfg_loop new (\<lambda>c t. cfg_process new depth c t) (trace_id p) None
             (collect_layer_nodes kvs) ?s1))"
      by (rule cfg_loop_grows) (use assms Suc in blast)+
    then show ?thesis using Inr g0 by (auto simp: Let_def intro: grows_trans)
  qed
qed

lemma ospl_try_body_grows:
  assumes "P (Construct tid v)"
  shows "grows P s (snd (snd (ospl_try_body new run tid po v s)))"
  using assms
  by (cases "new tid v") (simp_all add: ospl_try_body_def ospl_class_no_flags grows_emit)

lemma ospl_loop_grows:
  assumes "\<And>v. P (Construct tid v)"
  shows "grows P s (snd (ospl_loop new run tid po nodes s))"
proof (induction nodes arbitrary: po s)
  case Nil
  show ?case by (simp add: grows_refl)
next
  case (Cons v rest)
  obtain po1 r s1 where tb: "ospl_try_body new run tid po v s = (po1, r, s1)"
    by (metis prod_cases3)
  have g1: "grows P s s1"
    using ospl_try_body_grows [of P tid v s new run po] assms tb by simp
  show ?case
  proof (cases r)
    case (Inr u)
    then show ?thesis
      using tb g1 Cons.IH ospl_loop_return [of new run tid po v s po1 u s1 rest]
      by (auto intro: grows_trans)
  next
    case (Inl e)
    then show ?thesis
      using tb g1 ospl_loop_raise [of new run tid po v s po1 e s1 rest] by simp
  qed
qed

lemma ospl_process_grows:
  assumes "\<And>v. P (Construct (trace_id p) v)"
      and "\<And>v. P (Process (trace_id p) v)"
  shows "grows P s (snd (ospl_process new depth p s))"
proof (cases depth)
  case 0
  then show ?thesis by (simp add: grows_refl)
next
  case (Suc d)
  let ?s1 = "emit (Process (trace_id p) (layer_data p)) s"
  have g0: "grows P s ?s1" using assms(2) by (simp add: grows_emit)
  show ?thesis
  proof (cases "dict_items (layer_data p)")
    case (Inl e)
    then show ?thesis using g0 Suc by (simp add: Let_def)
  next
    case (Inr kvs)
    have "grows P ?s1 (snd (ospl_loop new (\<lambda>c t. ospl_process new d c t) (trace_id p) None
             (collect_layer_nodes kvs) ?s1))"
      by (rule ospl_loop_grows) (rule assms(1))
    then show ?thesis using Inr g0 Suc by (auto simp: Let_def intro: grows_trans)
  qed
qed

subsection \<open>What the try block can raise\<close>

lemma is_walk_event_iff: "is_walk_event e \<longleftrightarrow> e \<notin> {Validate, Transform, Store, Notify, Undo}"
  by (cases e) (simp_all add: is_walk_event_def)

lemma cfg_loop_not_invalid:
  "fst (cfg_loop new run tid po nodes s) \<noteq> Inl InvalidInputException"
proof (induction nodes arbitrary: po s)
  case Nil
  show ?case by simp
next
  case (Cons v rest)
  obtain po1 r s1 where tb: "cfg_try_body new run tid po v s = (po1, r, s1)"
    by (metis prod_cases3)
  show ?case
  proof (cases r)
    case (Inr u)
    then show ?thesis
      using tb Cons.IH cfg_loop_return [of new run tid po v s po1 u s1 rest] by simp
  next
    case (Inl e)
    then show ?thesis
      using tb cfg_loop_raise [of new run tid po v s po1 e s1 rest] by simp
  qed
qed

lemma dict_items_error: "dict_items v = Inl e \<Longrightarrow> e = AttributeError"
  by (cases v) simp_all

lemma cfg_process_not_invalid:
  "fst (cfg_process new depth p s) \<noteq> Inl InvalidInputException"
proof (cases depth)
  case 0
  then show ?thesis by simp
next
  case (Suc d)
  then show ?thesis
    by (cases "dict_items (layer_data p)")
      (auto simp: Let_def cfg_loop_not_invalid dest: dict_items_error)
qed

lemma cfg_try_body_not_invalid:
  assumes "new tid v \<noteq> Inl InvalidInputException"
      and "\<And>p s. fst (run p s) \<noteq> Inl InvalidInputException"
  shows "fst (snd (cfg_try_body new run tid po v s)) \<noteq> Inl InvalidInputException"
proof (cases "new tid v")
  case (Inl e)
  then show ?thesis using assms(1) by (simp add: cfg_try_body_def)
next
  case (Inr p)
  then show ?thesis using assms(2) [of p "emit (Construct tid v) s"]
    by (simp add: cfg_try_body_def Let_def split: prod.splits)
qed

lemma ospl_try_body_not_invalid:
  assumes "new tid v \<noteq> Inl InvalidInputException"
  shows "fst (snd (ospl_try_body new run tid po v s)) \<noteq> Inl InvalidInputException"
  using assms
  by (cases "new tid v") (simp_all add: ospl_try_body_def ospl_class_no_flags)

subsection \<open>The strategy of the parent\<close>



subsection \<open>Classification\<close>

text \<open>
  C4. The claim asks for a total classification with a catch-all default. The factories of
  the first design have one (\<open>factories_total\<close>). The resolver of the second design has
  none: for a field name other than \<^verbatim>\<open>'address'\<close> it returns \<^verbatim>\<open>None\<close>, and the read
  of \<^verbatim>\<open>.is_independent_of_children\<close> that follows in the loop raises AttributeError.
\<close>

theorem get_strategy_unmatched:
  "get_strategy ''transaction'' [(''amount'', JInt (- 1))] = None
   \<and> ospl_class_getattr (get_strategy ''transaction'' [(''amount'', JInt (- 1))])
         ''is_independent_of_children'' = Inl AttributeError"
  by (simp add: get_strategy_def ospl_class_getattr_def)

text \<open>
  C5. For a layer whose field name is \<^verbatim>\<open>'address'\<close> the resolver looks at the keys of the
  layer's own data: the street strategy when \<^verbatim>\<open>'street'\<close> is a key, otherwise the avenue
  strategy when \<^verbatim>\<open>'avenue'\<close> is a key, otherwise the default address strategy.
\<close>

theorem address_refinement:
  "fname = ''address'' \<Longrightarrow>
   get_strategy fname d =
     Some (if ''street'' \<in> set (map fst d) then StreetAddressStrategy
           else if ''avenue'' \<in> set (map fst d) then AvenueAddressStrategy
           else DefaultAddressStrategy)"
  by (simp add: get_strategy_def)

theorem address_refinement_witness:
  "get_strategy ''address'' [(''street'', JStr ''Main''), (''avenue'', JStr ''5th'')] = Some StreetAddressStrategy
   \<and> get_strategy ''address'' [(''zip'', JStr ''1''), (''avenue'', JStr ''5th'')] = Some AvenueAddressStrategy
   \<and> get_strategy ''address'' [(''zip'', JStr ''1'')] = Some DefaultAddressStrategy"
  using address_refinement [of "''address''" "[(''street'', JStr ''Main''), (''avenue'', JStr ''5th'')]"]
        address_refinement [of "''address''" "[(''zip'', JStr ''1''), (''avenue'', JStr ''5th'')]"]
        address_refinement [of "''address''" "[(''zip'', JStr ''1'')]"]
  by simp

subsection \<open>The children of a layer\<close>

text \<open>
  C6, as the specification words it, fails on the code: a Layer held inside a sequence is
  not a child. For the layer \<^verbatim>\<open>{"items": [{"a": 1}]}\<close> the specification enumerates one
  child, the code none.
\<close>

theorem child_layers_counterexample:
  "collect_layer_nodes [(''items'', JList [JDict [(''a'', JInt 1)]])] = []
   \<and> spec_child_layers [(''items'', JList [JDict [(''a'', JInt 1)]])] = [JDict [(''a'', JInt 1)]]"
  by (simp add: collect_layer_nodes_def)

text \<open>
  C6, amended. The child layers queued for the recursion are exactly the values of the
  direct fields that are dicts, in field order; a field whose value is a sequence adds
  nothing, whatever the sequence holds. \<^verbatim>\<open>_process\<close> of either design runs its second
  loop over exactly this list.
\<close>

theorem child_layers_direct_dicts:
  "collect_layer_nodes kvs = filter is_dict (map snd kvs)
   \<and> collect_layer_nodes (pre @ (field, JList vs) # post) = collect_layer_nodes (pre @ post)
   \<and> cfg_process new (Suc depth) \<lparr>trace_id = tid, layer_data = JDict kvs, strategy = st\<rparr> s =
       cfg_loop new (\<lambda>c t. cfg_process new depth c t) tid None
         (filter is_dict (map snd kvs)) (emit (Process tid (JDict kvs)) s)
   \<and> ospl_process new' (Suc depth) \<lparr>trace_id = tid, layer_data = JDict kvs, strategy_obj = k\<rparr> s =
       ospl_loop new' (\<lambda>c t. ospl_process new' depth c t) tid None
         (filter is_dict (map snd kvs)) (emit (Process tid (JDict kvs)) s)"
  by (simp add: collect_layer_nodes_filter Let_def)

subsection \<open>Construction of a processor\<close>

text \<open>
  C9, as stated, fails on the code in two places. A call of \<^verbatim>\<open>Driver.main\<close> of the first
  design fails at the import of its module, which does not compile: nothing is constructed
  and the log stays empty. A call of \<^verbatim>\<open>Driver.main\<close> of the second design on a file that
  cannot be read ends with that error, again before any construction.
\<close>

theorem ConcreteProcessor_counterexample:
  "cfg_main cfg_ConcreteProcessor (\<lambda>p. Inr ''bytes'')
      (\<lambda>c. Inr (JDict [(''address'', JDict [(''street'', JStr ''Main'')])]))
      (\<lambda>k. 42 + k) 5 ''in.json'' \<lparr>log = [], uuid_draws = 0\<rparr> =
     (Inl IndentationError, \<lparr>log = [], uuid_draws = 0\<rparr>)
   \<and> ospl_main ospl_ConcreteProcessor (\<lambda>p. Inl OSError) (\<lambda>c. Inr (JDict []))
      (\<lambda>k. 42 + k) 5 ''missing.json'' \<lparr>log = [], uuid_draws = 0\<rparr> =
     (Inl OSError, \<lparr>log = [], uuid_draws = 0\<rparr>)"
  by (simp add: cfg_main_def cfg_import_fails ospl_main_def ospl_import_succeeds)

text \<open>
  C9, amended. \<^verbatim>\<open>_undo_process\<close> is abstract in \<^verbatim>\<open>AbstractProcessor\<close> and the class
  statement of \<^verbatim>\<open>ConcreteProcessor\<close> does not define it, in either design. In the second
  design every call \<^verbatim>\<open>ConcreteProcessor(trace_id, layer_data)\<close> therefore raises TypeError:
  the one in the loop, for every child, and the one in \<^verbatim>\<open>Driver.main\<close>. A call of that
  \<^verbatim>\<open>main\<close> never returns normally: it raises what reading or decoding raised, or else
  TypeError at the construction, the log then holding the one constructor call and no
  \<open>Process\<close> event. In the first design no object is constructed either: every use of the
  module ends at its import.
\<close>

theorem ConcreteProcessor_not_instantiable:
  "abstractmethods cfg_own (ConcreteProcessor # cfg_ancestors ConcreteProcessor) = [''_undo_process'']
   \<and> abstractmethods ospl_own (ConcreteProcessor' # ospl_ancestors ConcreteProcessor') = [''_undo_process'']
   \<and> ospl_ConcreteProcessor tid v = Inl TypeError
   \<and> ospl_try_body ospl_ConcreteProcessor run' tid po' v s = (po', Inl TypeError, emit (Construct tid v) s)
   \<and> ospl_main ospl_ConcreteProcessor rd ld gen depth path s =
       (case rd path of
          Inl e \<Rightarrow> (Inl e, s)
        | Inr content \<Rightarrow>
            (case ld content of
               Inl e \<Rightarrow> (Inl e, s)
             | Inr doc \<Rightarrow>
                 (Inl TypeError, emit (Construct (gen (uuid_draws s)) doc) (snd (uuid4 gen s)))))
   \<and> (\<exists>e. fst (ospl_main ospl_ConcreteProcessor rd ld gen depth path s) = Inl e)
   \<and> cfg_import = Inl IndentationError
   \<and> cfg_ConcreteProcessor tid v = Inl IndentationError
   \<and> cfg_main new rd ld gen depth path s = (Inl IndentationError, s)"
proof -
  have m2: "ospl_main ospl_ConcreteProcessor rd ld gen depth path s =
       (case rd path of
          Inl e \<Rightarrow> (Inl e, s)
        | Inr content \<Rightarrow>
            (case ld content of
               Inl e \<Rightarrow> (Inl e, s)
             | Inr doc \<Rightarrow>
                 (Inl TypeError, emit (Construct (gen (uuid_draws s)) doc) (snd (uuid4 gen s)))))"
    by (simp add: ospl_main_def ospl_import_succeeds ospl_ConcreteProcessor_fails uuid4_def
        Let_def split: sum.splits)
  have e2: "\<exists>e. fst (ospl_main ospl_ConcreteProcessor rd ld gen depth path s) = Inl e"
    unfolding m2 by (simp split: sum.splits)
  have t2: "ospl_try_body ospl_ConcreteProcessor run' tid po' v s = (po', Inl TypeError, emit (Construct tid v) s)"
    by (simp add: ospl_try_body_def ospl_ConcreteProcessor_fails)
  have m1: "cfg_main new rd ld gen depth path s = (Inl IndentationError, s)"
    by (simp add: cfg_main_def cfg_import_fails)
  show ?thesis
    using cfg_abstract_ConcreteProcessor ospl_abstract_ConcreteProcessor
      ospl_ConcreteProcessor_fails t2 m2 e2 cfg_import_fails cfg_ConcreteProcessor_fails m1
    by blast
qed

subsection \<open>The trace identifier\<close>


subsection \<open>What process\_data does\<close>

text \<open>
  C10. \<^verbatim>\<open>process_data\<close> adds only constructor calls and entries into \<^verbatim>\<open>_process\<close> to
  the log: no validation, transformation, storage, notification or undo (lemma
  \<open>is_walk_event_iff\<close>). The \<^verbatim>\<open>validate\<close> operations raise nothing, and the
  \<^verbatim>\<open>try\<close> block never raises InvalidInputException, so the \<^verbatim>\<open>except\<close> block is never
  entered. The statement holds for every binding of \<^verbatim>\<open>ConcreteProcessor\<close> that does not
  itself raise InvalidInputException; the constructors of the source never do.
\<close>

theorem engine_only_walks:
  assumes "\<forall>t v. new t v \<noteq> Inl InvalidInputException"
      and "\<forall>t v. new' t v \<noteq> Inl InvalidInputException"
  shows "fst (snd (cfg_try_body new (cfg_process_data new depth) tid po v s)) \<noteq> Inl InvalidInputException
       \<and> fst (snd (ospl_try_body new' (ospl_process_data new' depth) tid po' v s)) \<noteq> Inl InvalidInputException
       \<and> grows is_walk_event s (snd (cfg_process_data new depth p s))
       \<and> grows is_walk_event s (snd (ospl_process_data new' depth p' s))
       \<and> fst (cfg_validate st s) = Inr ()
       \<and> fst (ospl_validate k s) = Inr ()"
proof -
  have a: "fst (snd (cfg_try_body new (cfg_process_data new depth) tid po v s)) \<noteq> Inl InvalidInputException"
    by (rule cfg_try_body_not_invalid) (simp_all add: assms(1) cfg_process_data_def cfg_process_not_invalid)
  have b: "fst (snd (ospl_try_body new' (ospl_process_data new' depth) tid po' v s)) \<noteq> Inl InvalidInputException"
    by (rule ospl_try_body_not_invalid) (simp add: assms(2))
  have c: "grows is_walk_event s (snd (cfg_process new depth p s))"
    by (rule cfg_process_grows [where Q = "\<lambda>t. True"]) (simp_all add: is_walk_event_def)
  have d: "grows is_walk_event s (snd (ospl_process new' depth p' s))"
    by (rule ospl_process_grows) (simp_all add: is_walk_event_def)
  show ?thesis using a b c d
    by (simp add: cfg_process_data_def ospl_process_data_def cfg_validate_def ospl_validate_def)
qed

theorem engine_only_walks_witness:
  "fst (snd (cfg_try_body cfg_ConcreteProcessor (cfg_process_data cfg_ConcreteProcessor 3) 7 None
       (JDict [(''amount'', JInt (- 1))]) \<lparr>log = [], uuid_draws = 1\<rparr>)) \<noteq> Inl InvalidInputException
   \<and> fst (snd (ospl_try_body ospl_ConcreteProcessor (ospl_process_data ospl_ConcreteProcessor 3) 7 None
       (JDict [(''amount'', JInt (- 1))]) \<lparr>log = [], uuid_draws = 1\<rparr>)) \<noteq> Inl InvalidInputException
   \<and> grows is_walk_event \<lparr>log = [], uuid_draws = 1\<rparr>
        (snd (cfg_process_data cfg_ConcreteProcessor 3
          \<lparr>trace_id = 7, layer_data = JDict [(''transaction'', JDict [(''amount'', JInt (- 1))])],
           strategy = \<lparr>is_independent_of_children = False, stop_on_failure = True,
             transformer = ReflectiveTransformer, storage_handler = StoreToFile,
             notifier_obj = NullNotifier\<rparr>\<rparr> \<lparr>log = [], uuid_draws = 1\<rparr>))
   \<and> grows is_walk_event \<lparr>log = [], uuid_draws = 1\<rparr>
        (snd (ospl_process_data ospl_ConcreteProcessor 3
          \<lparr>trace_id = 7, layer_data = JDict [(''transaction'', JDict [(''amount'', JInt (- 1))])],
           strategy_obj = None\<rparr> \<lparr>log = [], uuid_draws = 1\<rparr>))
   \<and> fst (cfg_validate \<lparr>is_independent_of_children = False, stop_on_failure = True,
             transformer = ReflectiveTransformer, storage_handler = StoreToFile,
             notifier_obj = NullNotifier\<rparr> \<lparr>log = [], uuid_draws = 1\<rparr>) = Inr ()
   \<and> fst (ospl_validate StreetAddressStrategy \<lparr>log = [], uuid_draws = 1\<rparr>) = Inr ()"
proof -
  have h1: "\<forall>t v. cfg_ConcreteProcessor t v \<noteq> Inl InvalidInputException"
    by (simp add: cfg_ConcreteProcessor_fails)
  have h2: "\<forall>t v. ospl_ConcreteProcessor t v \<noteq> Inl InvalidInputException"
    by (simp add: ospl_ConcreteProcessor_fails)
  show ?thesis
    by (rule engine_only_walks [OF h1 h2])
qed

subsection \<open>A child that fails\<close>







end
